theory Spec2Isabelle
  imports Main
begin

section \<open>The billing utilities of src/utils/stripe.ts\<close>

text \<open>
  The module talks to three collaborators: the identity provider (Clerk: \<open>auth()\<close>,
  \<open>currentUser()\<close>), the database (Prisma: the \<open>user\<close> and \<open>lessonPlan\<close> tables) and the
  payment provider (Stripe: subscriptions and customers). The embedding passes a record
  \<open>world\<close> through every call: it holds what each collaborator would answer, the clock
  that \<open>new Date()\<close> reads, the locale's date formatter, and a log of the collaborator
  calls made so far. An \<open>async\<close> function becomes a function from the world to a result
  and the world after it; a rejected promise or a \<open>throw\<close> is the result \<open>Inl e\<close>.

  Numbers: epoch seconds and epoch milliseconds are \<open>int\<close> (the source's doubles are exact
  on them, and the times are taken to lie in the range of a \<open>Date\<close>); a \<open>Date\<close> is its
  \<open>getTime()\<close>, an \<open>int\<close> of milliseconds. The clock does not move during a call; between
  two calls it is whatever the second world says.

  A collaborator that does not answer is a flag of the world (\<open>clerk_ok\<close>, \<open>prisma_ok\<close>,
  \<open>stripe_ok\<close>): with the flag off every call to that collaborator is logged and rejects.
  The tables and the types of the collaborators are not in the module; the records below
  hold the fields the module reads and writes.
\<close>

subsection \<open>Data\<close>

text \<open>The interface \<open>StripeSubscription\<close> (lines 7-12).\<close>

record StripeSubscription =
  status :: string
  current_period_start :: int
  current_period_end :: int
  created :: int

text \<open>
  What \<open>currentUser()\<close> returns, as far as the module reads it: \<open>user.id\<close> (field
  \<open>clerk_id\<close>), \<open>user.emailAddresses[i].emailAddress\<close>, \<open>user.firstName\<close> and
  \<open>user.lastName\<close> (either may be \<open>null\<close>).
\<close>

record ClerkUser =
  clerk_id :: string
  emailAddresses :: "string list"
  firstName :: "string option"
  lastName :: "string option"

text \<open>A row of the \<open>user\<close> table: \<open>id\<close> (field \<open>db_id\<close>) and the nullable \<open>stripe_customer_id\<close>.\<close>

record UserRow =
  db_id :: string
  stripe_customer_id :: "string option"

text \<open>A row of the \<open>lessonPlan\<close> table: one usage event.\<close>

record LessonPlanRow =
  userId :: string
  createdAt :: int

text \<open>A customer held by the payment provider.\<close>

record StripeCustomer =
  customer_id :: string
  customer_email :: string
  customer_name :: string

text \<open>The result of \<open>hasSubscription\<close> (lines 15-18).\<close>

record SubscriptionInfo =
  isSubscribed :: bool
  subscriptionData :: "StripeSubscription list"

text \<open>The result of \<open>checkLessonPlanCreationEligibility\<close> (lines 123-127).\<close>

record EligibilityDecision =
  isEligible :: bool
  message :: string
  remainingGenerations :: int

text \<open>
  Errors: the \<open>Error("User not authenticated")\<close> of line 55; the \<open>TypeError\<close> of reading
  \<open>.emailAddress\<close> of \<open>undefined\<close> (line 68, an empty \<open>emailAddresses\<close>); Prisma's rejection
  of an \<open>update\<close> whose \<open>where\<close> matches no row (line 72); and a collaborator that does not
  answer.
\<close>

datatype error =
  NotAuthenticated
  | TypeError
  | RecordNotFound
  | ClerkFailure
  | PrismaFailure
  | StripeFailure

text \<open>The collaborator calls, as the log records them, with their arguments.\<close>

datatype call =
  ClerkAuth
  | ClerkCurrentUser
  | UserFindUnique string
  | UserUpdate string string
  | LessonPlanCount string int int
  | SubscriptionsList string
  | CustomersCreate string string

record world =
  clerk_ok :: bool
  session_userId :: "string option"
  session_user :: "ClerkUser option"
  prisma_ok :: bool
  user_table :: "UserRow list"
  lessonPlan_table :: "LessonPlanRow list"
  stripe_ok :: bool
  stripe_subscriptions :: "string \<Rightarrow> StripeSubscription list"
  stripe_customers :: "StripeCustomer list"
  stripe_new_id :: "nat \<Rightarrow> string"
  clock :: int
  toLocaleDateString :: "int \<Rightarrow> string"
  calls :: "call list"

text \<open>
  An action runs in a world and gives a value or an error, and the world after it.
\<close>

type_synonym 'a action = "world \<Rightarrow> (error + 'a) \<times> world"

subsection \<open>JavaScript values\<close>

text \<open>
  Truthiness of a \<open>string | null\<close>: \<open>null\<close> and the empty string are falsy. It decides
  \<open>!userId\<close>, \<open>userId && user\<close> and \<open>!userDB?.stripe_customer_id\<close>.
\<close>

definition truthy :: "string option \<Rightarrow> bool" where
  "truthy v = (case v of None \<Rightarrow> False | Some s \<Rightarrow> s \<noteq> [])"

text \<open>
  \<open>String(v)\<close> and a \<open>string | null\<close> inside a template literal: the string itself, and
  \<open>null\<close> prints as \<open>null\<close>.
\<close>

definition to_String :: "string option \<Rightarrow> string" where
  "to_String v = (case v of None \<Rightarrow> ''null'' | Some s \<Rightarrow> s)"

text \<open>
  \<open>userId && user\<close>: the identity is resolved when \<open>userId\<close> is truthy and \<open>user\<close> is
  not \<open>null\<close>.
\<close>

definition resolved :: "string option \<Rightarrow> ClerkUser option \<Rightarrow> (string \<times> ClerkUser) option" where
  "resolved uid_opt user =
     (case (uid_opt, user) of
        (Some uid, Some u) \<Rightarrow> if uid \<noteq> [] then Some (uid, u) else None
      | _ \<Rightarrow> None)"

text \<open>\<open>userDB?.stripe_customer_id\<close>: \<open>undefined\<close> (here \<open>None\<close>) when there is no row.\<close>

definition optional_customer_id :: "UserRow option \<Rightarrow> string option" where
  "optional_customer_id userDB = (case userDB of None \<Rightarrow> None | Some row \<Rightarrow> stripe_customer_id row)"

text \<open>An integer inside a template literal: its decimal digits, with a sign.\<close>

fun digits :: "nat \<Rightarrow> string" where
  "digits n =
     (if n < 10 then [''0123456789'' ! n]
      else digits (n div 10) @ [''0123456789'' ! (n mod 10)])"

declare digits.simps [simp del]

definition template_int :: "int \<Rightarrow> string" where
  "template_int i = (if i < 0 then CHR ''-'' # digits (nat (- i)) else digits (nat i))"

subsection \<open>Awaiting\<close>

text \<open>
  \<open>await p\<close> followed by the rest of the function: a rejection ends the function with the
  same error, a value goes on to the rest, in the world \<open>p\<close> left.
\<close>

definition await :: "'a action \<Rightarrow> ('a \<Rightarrow> 'b action) \<Rightarrow> 'b action" where
  "await p k w = (case p w of (Inl e, w') \<Rightarrow> (Inl e, w') | (Inr x, w') \<Rightarrow> k x w')"

definition return :: "'a \<Rightarrow> 'a action" where
  "return x w = (Inr x, w)"

definition throw :: "error \<Rightarrow> 'a action" where
  "throw e w = (Inl e, w)"

definition logged :: "call \<Rightarrow> world \<Rightarrow> world" where
  "logged c w = w\<lparr>calls := calls w @ [c]\<rparr>"

subsection \<open>The collaborators\<close>

text \<open>Clerk: \<open>auth().userId\<close> and \<open>currentUser()\<close>.\<close>

definition auth :: "(string option) action" where
  "auth w =
     (if clerk_ok w then return (session_userId w) (logged ClerkAuth w)
      else throw ClerkFailure (logged ClerkAuth w))"

definition currentUser :: "(ClerkUser option) action" where
  "currentUser w =
     (if clerk_ok w then return (session_user w) (logged ClerkCurrentUser w)
      else throw ClerkFailure (logged ClerkCurrentUser w))"

text \<open>Prisma: \<open>user.findUnique({where: {id}})\<close> is the row with that id, or \<open>null\<close>.\<close>

definition user_findUnique :: "string \<Rightarrow> (UserRow option) action" where
  "user_findUnique i w =
     (if prisma_ok w
      then return (find (\<lambda>r. db_id r = i) (user_table w)) (logged (UserFindUnique i) w)
      else throw PrismaFailure (logged (UserFindUnique i) w))"

text \<open>
  Prisma: \<open>user.update({where: {id}, data: {stripe_customer_id}})\<close> rewrites the row with
  that id and rejects when there is none.
\<close>

definition user_update :: "string \<Rightarrow> string \<Rightarrow> unit action" where
  "user_update i c w =
     (if \<not> prisma_ok w then throw PrismaFailure (logged (UserUpdate i c) w)
      else if find (\<lambda>r. db_id r = i) (user_table w) = None
        then throw RecordNotFound (logged (UserUpdate i c) w)
      else return ()
        (logged (UserUpdate i c)
          (w\<lparr>user_table :=
               map (\<lambda>r. if db_id r = i then r\<lparr>stripe_customer_id := Some c\<rparr> else r)
                 (user_table w)\<rparr>)))"

text \<open>
  Prisma: \<open>lessonPlan.count({where: {userId, createdAt: {gte, lte}}})\<close>. A row matches
  when every condition of the \<open>where\<close> holds; \<open>gte\<close> is \<open>\<ge>\<close> and \<open>lte\<close> is \<open>\<le>\<close>.
\<close>

definition lessonPlan_matches :: "string \<Rightarrow> int \<Rightarrow> int \<Rightarrow> LessonPlanRow \<Rightarrow> bool" where
  "lessonPlan_matches u gte lte r = (userId r = u \<and> createdAt r \<ge> gte \<and> createdAt r \<le> lte)"

definition lessonPlan_count :: "string \<Rightarrow> int \<Rightarrow> int \<Rightarrow> nat action" where
  "lessonPlan_count u gte lte w =
     (if prisma_ok w
      then return (length (filter (lessonPlan_matches u gte lte) (lessonPlan_table w)))
             (logged (LessonPlanCount u gte lte) w)
      else throw PrismaFailure (logged (LessonPlanCount u gte lte) w))"

text \<open>Stripe: \<open>subscriptions.list({customer})\<close>, the \<open>data\<close> of the answer.\<close>

definition subscriptions_list :: "string \<Rightarrow> (StripeSubscription list) action" where
  "subscriptions_list c w =
     (if stripe_ok w then return (stripe_subscriptions w c) (logged (SubscriptionsList c) w)
      else throw StripeFailure (logged (SubscriptionsList c) w))"

text \<open>
  Stripe: \<open>customers.create({email, name})\<close> stores a customer under the next identifier
  the provider issues and returns it.
\<close>

definition customers_create :: "string \<Rightarrow> string \<Rightarrow> StripeCustomer action" where
  "customers_create e n w =
     (if stripe_ok w
      then (let c = \<lparr>customer_id = stripe_new_id w (length (stripe_customers w)),
                      customer_email = e, customer_name = n\<rparr>
            in return c
                 (logged (CustomersCreate e n) (w\<lparr>stripe_customers := stripe_customers w @ [c]\<rparr>)))
      else throw StripeFailure (logged (CustomersCreate e n) w))"

text \<open>
  \<open>new Date()\<close> reads the clock and \<open>toLocaleDateString\<close> is the locale's formatter; they
  call no collaborator and cannot fail.
\<close>

definition new_Date :: "int action" where
  "new_Date w = return (clock w) w"

definition locale_formatter :: "(int \<Rightarrow> string) action" where
  "locale_formatter w = return (toLocaleDateString w) w"

subsection \<open>hasSubscription (lines 15-50)\<close>

definition not_subscribed :: SubscriptionInfo where
  "not_subscribed = \<lparr>isSubscribed = False, subscriptionData = []\<rparr>"

definition hasSubscription :: "SubscriptionInfo action" where
  "hasSubscription =
     await auth (\<lambda>uid_opt.
     await currentUser (\<lambda>user.
       (case resolved uid_opt user of
          Some (uid, u) \<Rightarrow>
            await (user_findUnique uid) (\<lambda>userDB.
              if \<not> truthy (optional_customer_id userDB)
              then return not_subscribed
              else
                await (subscriptions_list (to_String (optional_customer_id userDB)))
                  (\<lambda>subscriptions.
                     return \<lparr>isSubscribed = length subscriptions > 0,
                             subscriptionData = subscriptions\<rparr>))
        | None \<Rightarrow> return not_subscribed)))"

subsection \<open>createCustomerIfNull (lines 52-78)\<close>

text \<open>
  Line 68 reads \<open>user.emailAddresses[0].emailAddress\<close>: with no address the element is
  \<open>undefined\<close> and the property read throws.
\<close>

definition first_emailAddress :: "ClerkUser \<Rightarrow> string action" where
  "first_emailAddress u =
     (case emailAddresses u of [] \<Rightarrow> throw TypeError | e # _ \<Rightarrow> return e)"

definition createCustomerIfNull :: "string action" where
  "createCustomerIfNull =
     await currentUser (\<lambda>user.
       (case user of
          None \<Rightarrow> throw NotAuthenticated
        | Some u \<Rightarrow>
            await (user_findUnique (clerk_id u)) (\<lambda>dbUser.
              if truthy (optional_customer_id dbUser)
              then return (to_String (optional_customer_id dbUser))
              else
                await (first_emailAddress u) (\<lambda>e.
                await (customers_create e (to_String (firstName u) @ '' '' @ to_String (lastName u)))
                  (\<lambda>customer.
                await (user_update (clerk_id u) (customer_id customer)) (\<lambda>_.
                return (customer_id customer)))))))"

subsection \<open>checkLessonPlanCreationEligibility (lines 123-208)\<close>

text \<open>The decision of lines 131-136 and, again, of lines 146-151.\<close>

definition auth_required :: EligibilityDecision where
  "auth_required =
     \<lparr>isEligible = False,
      message = ''You must be logged in to see how many lesson plans you can make.'',
      remainingGenerations = 0\<rparr>"

text \<open>
  Lines 158-170: \<open>isSubscribed\<close>, \<open>periodStart\<close> and \<open>periodEnd\<close> from the subscriptions
  and \<open>currentDate\<close>. The periods of a subscription are epoch seconds; the dates are
  milliseconds.
\<close>

definition billing_period :: "int \<Rightarrow> StripeSubscription list \<Rightarrow> bool \<times> int \<times> int" where
  "billing_period currentDate subs =
     (case subs of
        subscription # _ \<Rightarrow>
          (status subscription = ''active'',
           current_period_start subscription * 1000,
           current_period_end subscription * 1000)
      | [] \<Rightarrow> (False, currentDate - 30 * 24 * 60 * 1000, currentDate))"

text \<open>Lines 182-207: the decision from the count of usage events.\<close>

definition decision ::
  "(int \<Rightarrow> string) \<Rightarrow> int \<Rightarrow> bool \<Rightarrow> int \<Rightarrow> nat \<Rightarrow> EligibilityDecision" where
  "decision fmt currentDate subscribed periodEnd lessonPlanGenerationCount =
     (let limit = (if subscribed then 30 else 10 :: int);
          remaining = max 0 (limit - int lessonPlanGenerationCount)
      in if remaining = 0 then
           (let resetDate =
                  (if subscribed then fmt periodEnd
                   else fmt (currentDate + 24 + 60 * 60 * 1000))
            in \<lparr>isEligible = False,
                message =
                  (if subscribed
                   then ''You have reached the maximum number of lesson plans (30) for this subscription period. Reset Date: '' @ resetDate
                   else ''You have reached the maximum number of lesson plan generations (10) for the free tier. You can generate more starting '' @ resetDate),
                remainingGenerations = 0\<rparr>)
         else
           \<lparr>isEligible = True,
            message =
              ''You have '' @ template_int remaining @ '' lesson plan generation''
                @ (if remaining \<noteq> 1 then ''s'' else [])
                @ '' remaining for this ''
                @ (if subscribed then ''billing cycle'' else ''month''),
            remainingGenerations = remaining\<rparr>)"

definition checkLessonPlanCreationEligibility :: "EligibilityDecision action" where
  "checkLessonPlanCreationEligibility =
     await auth (\<lambda>uid_opt.
     await currentUser (\<lambda>user.
       (case resolved uid_opt user of
          None \<Rightarrow> return auth_required
        | Some (uid, u) \<Rightarrow>
            await (user_findUnique uid) (\<lambda>userDB.
              (case userDB of
                 None \<Rightarrow> return auth_required
               | Some row \<Rightarrow>
                   await hasSubscription (\<lambda>stripeSubscriptionData.
                   await new_Date (\<lambda>currentDate.
                     (case billing_period currentDate (subscriptionData stripeSubscriptionData) of
                        (subscribed, periodStart, periodEnd) \<Rightarrow>
                          await (lessonPlan_count (db_id row) periodStart periodEnd)
                            (\<lambda>lessonPlanGenerationCount.
                          await locale_formatter (\<lambda>fmt.
                            return
                              (decision fmt currentDate subscribed periodEnd
                                 lessonPlanGenerationCount)))))))))))"

subsection \<open>Example worlds\<close>

text \<open>
  A formatter for the examples: the number of the day since the epoch. The locale's real
  formatter is a parameter of the world; the theorems hold for every formatter.
\<close>

definition example_formatter :: "int \<Rightarrow> string" where
  "example_formatter t = ''day '' @ template_int (t div 86400000)"

text \<open>The signed-in person of the examples, under the identifier \<open>i\<close>.\<close>

definition person :: "string \<Rightarrow> ClerkUser" where
  "person i =
     \<lparr>clerk_id = i, emailAddresses = [''ada@example.com''],
      firstName = Some ''Ada'', lastName = None\<rparr>"

text \<open>
  A world where every collaborator answers: the session of \<open>session\<close> (if any), one user
  row \<open>user_1\<close> with the customer identifier \<open>cid\<close>, the subscriptions \<open>subs\<close> of customer
  \<open>cus_1\<close>, the usage events \<open>plans\<close>, and the clock at \<open>now\<close>.
\<close>

definition example_world ::
  "string option \<Rightarrow> string option \<Rightarrow> StripeSubscription list \<Rightarrow> LessonPlanRow list \<Rightarrow> int \<Rightarrow> world" where
  "example_world session cid subs plans now =
     \<lparr>clerk_ok = True,
      session_userId = session,
      session_user = (case session of None \<Rightarrow> None | Some i \<Rightarrow> Some (person i)),
      prisma_ok = True,
      user_table = [\<lparr>db_id = ''user_1'', stripe_customer_id = cid\<rparr>],
      lessonPlan_table = plans,
      stripe_ok = True,
      stripe_subscriptions = (\<lambda>c. if c = ''cus_1'' then subs else []),
      stripe_customers = [],
      stripe_new_id = (\<lambda>n. ''cus_'' @ digits (n + 2)),
      clock = now,
      toLocaleDateString = example_formatter,
      calls = []\<rparr>"

text \<open>A usage event of \<open>user_1\<close> at time \<open>t\<close>.\<close>

definition plan_at :: "int \<Rightarrow> LessonPlanRow" where
  "plan_at t = \<lparr>userId = ''user_1'', createdAt = t\<rparr>"

text \<open>
  A subscription with the status \<open>st\<close> whose current period is November 2023
  (from 1698796800 to 1701388800, in epoch seconds).
\<close>

definition november :: "string \<Rightarrow> StripeSubscription" where
  "november st =
     \<lparr>status = st, current_period_start = 1698796800, current_period_end = 1701388800,
      created = 1696118400\<rparr>"

text \<open>
  Usage events around that period: one at its first and one at its last millisecond, one
  a millisecond before and one a millisecond after it, and one of another user inside it.
\<close>

definition boundary_plans :: "LessonPlanRow list" where
  "boundary_plans =
     [plan_at 1698796800000, plan_at 1701388800000,
      plan_at 1698796799999, plan_at 1701388800001,
      \<lparr>userId = ''user_2'', createdAt = 1700000000000\<rparr>]"

text \<open>Nobody is signed in, and Stripe does not answer.\<close>

definition world_signed_out :: world where
  "world_signed_out = (example_world None None [] [] 1700000000000)\<lparr>stripe_ok := False\<rparr>"

text \<open>\<open>user_2\<close> is signed in but has no row, and Stripe does not answer.\<close>

definition world_no_row :: world where
  "world_no_row =
     (example_world (Some ''user_2'') None [] [] 1700000000000)\<lparr>stripe_ok := False\<rparr>"

text \<open>\<open>user_1\<close> already has the customer \<open>cus_1\<close>, and Stripe does not answer.\<close>

definition world_with_customer :: world where
  "world_with_customer =
     (example_world (Some ''user_1'') (Some ''cus_1'') [] [] 1700000000000)\<lparr>stripe_ok := False\<rparr>"

text \<open>\<open>user_1\<close> has no customer and five usage events, all at the time of the call.\<close>

definition world_free_5 :: world where
  "world_free_5 =
     example_world (Some ''user_1'') None [] (replicate 5 (plan_at 1700000000000)) 1700000000000"

text \<open>\<open>user_1\<close> has one subscription, canceled.\<close>

definition world_canceled :: world where
  "world_canceled =
     example_world (Some ''user_1'') (Some ''cus_1'') [november ''canceled''] boundary_plans
       1700000000000"

text \<open>
  \<open>user_1\<close> has one subscription, active, and thirty usage events in its period, fifteen
  at its first and fifteen at its last millisecond.
\<close>

definition world_active_30 :: world where
  "world_active_30 =
     example_world (Some ''user_1'') (Some ''cus_1'') [november ''active'']
       (replicate 14 (plan_at 1698796800000) @ replicate 14 (plan_at 1701388800000) @ boundary_plans)
       1700000000000"

text \<open>
  \<open>user_1\<close> has a customer without subscriptions; the usage events are at the time of the
  call, 43200000 ms before it, and a millisecond outside on either side.
\<close>

definition world_no_subscription :: world where
  "world_no_subscription =
     example_world (Some ''user_1'') (Some ''cus_1'') []
       [plan_at 1699956800000, plan_at 1700000000000, plan_at 1699956799999, plan_at 1700000000001]
       1700000000000"

text \<open>
  \<open>user_1\<close> has no customer and ten usage events; the clock is 3600024 ms before the
  end of day 19675.
\<close>

definition world_free_exhausted :: world where
  "world_free_exhausted =
     example_world (Some ''user_1'') None [] (replicate 10 (plan_at 1700000000000)) 1700002799976"

text \<open>\<open>user_1\<close> has no customer and one usage event, exactly 43200000 ms before the call.\<close>

definition world_window_edge :: world where
  "world_window_edge =
     example_world (Some ''user_1'') None [] [plan_at 1699956800000] 1700000000000"

section \<open>Properties\<close>

subsection \<open>Auxiliary facts\<close>

lemmas action_defs = await_def return_def throw_def logged_def auth_def currentUser_def
  user_findUnique_def user_update_def lessonPlan_count_def subscriptions_list_def
  customers_create_def new_Date_def locale_formatter_def

lemmas example_defs = example_world_def example_formatter_def person_def plan_at_def
  november_def boundary_plans_def resolved_def truthy_def to_String_def template_int_def

lemma find_db_id: "find (\<lambda>r. db_id r = uid) rows = Some row \<Longrightarrow> db_id row = uid"
  by (auto simp: find_Some_iff)

lemma count_replicate: "length (filter P (replicate n x)) = (if P x then n else 0)"
  by (induction n) auto

lemma digits_small: "n < 10 \<Longrightarrow> digits n = [''0123456789'' ! n]"
  by (simp add: digits.simps)

lemma lessonPlan_matches_fun:
  "lessonPlan_matches u a b = (\<lambda>r. userId r = u \<and> a \<le> createdAt r \<and> createdAt r \<le> b)"
  by (rule ext) (simp add: lessonPlan_matches_def)

lemma clock_calls_commute: "w\<lparr>calls := l, clock := t\<rparr> = w\<lparr>clock := t, calls := l\<rparr>"
  by (cases w) simp

lemmas eval_defs = checkLessonPlanCreationEligibility_def hasSubscription_def action_defs
  optional_customer_id_def not_subscribed_def billing_period_def decision_def Let_def
  lessonPlan_matches_fun count_replicate digits.simps example_defs

text \<open>\<open>hasSubscription\<close> for a resolved identity with a user row.\<close>

lemma hasSubscription_resolved:
  assumes "clerk_ok w" "prisma_ok w"
    and "resolved (session_userId w) (session_user w) = Some (uid, u)"
    and "find (\<lambda>r. db_id r = uid) (user_table w) = Some row"
  shows "hasSubscription w =
     (if \<not> truthy (stripe_customer_id row)
      then (Inr not_subscribed,
            w\<lparr>calls := calls w @ [ClerkAuth, ClerkCurrentUser, UserFindUnique uid]\<rparr>)
      else if stripe_ok w
      then (Inr \<lparr>isSubscribed = stripe_subscriptions w (to_String (stripe_customer_id row)) \<noteq> [],
                 subscriptionData = stripe_subscriptions w (to_String (stripe_customer_id row))\<rparr>,
            w\<lparr>calls := calls w @ [ClerkAuth, ClerkCurrentUser, UserFindUnique uid,
                                       SubscriptionsList (to_String (stripe_customer_id row))]\<rparr>)
      else (Inl StripeFailure,
            w\<lparr>calls := calls w @ [ClerkAuth, ClerkCurrentUser, UserFindUnique uid,
                                       SubscriptionsList (to_String (stripe_customer_id row))]\<rparr>))"
  using assms
  by (simp add: hasSubscription_def action_defs optional_customer_id_def)

lemma hasSubscription_ignores:
  "fst (hasSubscription (w\<lparr>clock := t, calls := l\<rparr>)) = fst (hasSubscription w)"
  by (simp add: hasSubscription_def action_defs optional_customer_id_def
      split: option.splits prod.splits)

text \<open>
  The evaluator for a resolved identity with a user row, when the subscription lookup
  answers: the decision, and the calls it made.
\<close>

lemma check_resolved:
  assumes "clerk_ok w" "prisma_ok w"
    and "resolved (session_userId w) (session_user w) = Some (uid, u)"
    and "find (\<lambda>r. db_id r = uid) (user_table w) = Some row"
    and "fst (hasSubscription w) = Inr info"
    and "billing_period (clock w) (subscriptionData info) = (sub, ps, pe)"
  shows "checkLessonPlanCreationEligibility w =
     (Inr (decision (toLocaleDateString w) (clock w) sub pe
             (length (filter (lessonPlan_matches uid ps pe) (lessonPlan_table w)))),
      w\<lparr>calls := calls w @
           [ClerkAuth, ClerkCurrentUser, UserFindUnique uid,
            ClerkAuth, ClerkCurrentUser, UserFindUnique uid]
           @ (if truthy (stripe_customer_id row)
              then [SubscriptionsList (to_String (stripe_customer_id row))] else [])
           @ [LessonPlanCount uid ps pe]\<rparr>)"
proof -
  have info: "(stripe_ok w \<or> \<not> truthy (stripe_customer_id row)) \<and>
      subscriptionData info =
        (if truthy (stripe_customer_id row)
         then stripe_subscriptions w (to_String (stripe_customer_id row)) else [])"
    using assms(5) hasSubscription_resolved[OF assms(1-4)]
    by (auto simp: not_subscribed_def split: if_splits)
  show ?thesis
    using assms(1-4,6) info find_db_id[OF assms(4)]
    by (auto simp add: checkLessonPlanCreationEligibility_def hasSubscription_def action_defs
        optional_customer_id_def not_subscribed_def)
qed

lemma check_resolved_fst:
  assumes "clerk_ok w" "prisma_ok w"
    and "resolved (session_userId w) (session_user w) = Some (uid, u)"
    and "find (\<lambda>r. db_id r = uid) (user_table w) = Some row"
    and "fst (hasSubscription w) = Inr info"
    and "billing_period (clock w) (subscriptionData info) = (sub, ps, pe)"
  shows "fst (checkLessonPlanCreationEligibility w) =
     Inr (decision (toLocaleDateString w) (clock w) sub pe
            (length [r \<leftarrow> lessonPlan_table w.
                       userId r = uid \<and> ps \<le> createdAt r \<and> createdAt r \<le> pe]))"
  using check_resolved[OF assms] by (simp add: lessonPlan_matches_fun)

lemma check_resolved_last_call:
  assumes "clerk_ok w" "prisma_ok w"
    and "resolved (session_userId w) (session_user w) = Some (uid, u)"
    and "find (\<lambda>r. db_id r = uid) (user_table w) = Some row"
    and "fst (hasSubscription w) = Inr info"
    and "billing_period (clock w) (subscriptionData info) = (sub, ps, pe)"
  shows "last (calls (snd (checkLessonPlanCreationEligibility w))) = LessonPlanCount uid ps pe"
  using check_resolved[OF assms] by simp

text \<open>The evaluator changes nothing in the world but the log, and does not read the log.\<close>

lemma check_calls_only:
  "snd (checkLessonPlanCreationEligibility w) =
     w\<lparr>calls := calls (snd (checkLessonPlanCreationEligibility w))\<rparr>"
  by (simp add: checkLessonPlanCreationEligibility_def hasSubscription_def action_defs
      optional_customer_id_def not_subscribed_def split: option.splits prod.splits)

lemma check_ignores_calls:
  "fst (checkLessonPlanCreationEligibility (w\<lparr>calls := l\<rparr>)) =
     fst (checkLessonPlanCreationEligibility w)"
  by (auto simp add: checkLessonPlanCreationEligibility_def hasSubscription_def action_defs
      optional_customer_id_def not_subscribed_def split: option.splits prod.splits)

text \<open>The decision of lines 182-207, read field by field.\<close>

lemma remaining_decision:
  "remainingGenerations (decision fmt now sub pe n) = max 0 ((if sub then 30 else 10) - int n)"
  by (simp add: decision_def Let_def)

lemma eligible_decision:
  "isEligible (decision fmt now sub pe n) = (0 < remainingGenerations (decision fmt now sub pe n))"
  by (auto simp add: decision_def Let_def)

lemma decision_bounds:
  "0 \<le> remainingGenerations (decision fmt now sub pe n) \<and>
   remainingGenerations (decision fmt now sub pe n) \<le> 30"
  by (simp add: remaining_decision)

lemma decision_subscribed:
  "decision fmt now True pe n = decision fmt now' True pe n"
  by (simp add: decision_def Let_def)

text \<open>The example worlds where \<open>user_1\<close> is signed in.\<close>

lemma example_world_resolved:
  "clerk_ok (example_world (Some ''user_1'') cid subs plans now)"
  "prisma_ok (example_world (Some ''user_1'') cid subs plans now)"
  "resolved (session_userId (example_world (Some ''user_1'') cid subs plans now))
     (session_user (example_world (Some ''user_1'') cid subs plans now)) =
     Some (''user_1'', person ''user_1'')"
  "find (\<lambda>r. db_id r = ''user_1'') (user_table (example_world (Some ''user_1'') cid subs plans now)) =
     Some \<lparr>db_id = ''user_1'', stripe_customer_id = cid\<rparr>"
  by (simp_all add: example_world_def resolved_def)

lemma example_world_hasSubscription:
  "fst (hasSubscription (example_world (Some ''user_1'') None subs plans now)) =
     Inr \<lparr>isSubscribed = False, subscriptionData = []\<rparr>"
  "fst (hasSubscription (example_world (Some ''user_1'') (Some ''cus_1'') subs plans now)) =
     Inr \<lparr>isSubscribed = (subs \<noteq> []), subscriptionData = subs\<rparr>"
  by (simp_all add: hasSubscription_resolved[OF example_world_resolved] not_subscribed_def
      truthy_def to_String_def) (simp_all add: example_world_def)

text \<open>The evaluator, run on example worlds.\<close>

lemma check_world_free_5:
  "fst (checkLessonPlanCreationEligibility world_free_5) =
     Inr \<lparr>isEligible = True,
          message = ''You have 5 lesson plan generations remaining for this month'',
          remainingGenerations = 5\<rparr>"
  by (simp add: eval_defs world_free_5_def)

lemma check_world_free_exhausted:
  "fst (checkLessonPlanCreationEligibility world_free_exhausted) =
     Inr \<lparr>isEligible = False,
          message = ''You have reached the maximum number of lesson plan generations (10) for the free tier. You can generate more starting day 19676'',
          remainingGenerations = 0\<rparr>"
  by (simp add: eval_defs world_free_exhausted_def)

lemma check_world_window_edge:
  "fst (checkLessonPlanCreationEligibility world_window_edge) =
     Inr \<lparr>isEligible = True,
          message = ''You have 9 lesson plan generations remaining for this month'',
          remainingGenerations = 9\<rparr>"
  by (simp add: eval_defs world_window_edge_def)

lemma check_world_window_edge_later:
  "fst (checkLessonPlanCreationEligibility (world_window_edge\<lparr>clock := clock world_window_edge + 1\<rparr>)) =
     Inr \<lparr>isEligible = True,
          message = ''You have 10 lesson plan generations remaining for this month'',
          remainingGenerations = 10\<rparr>"
  by (simp add: eval_defs world_window_edge_def)

subsection \<open>The limit and the remaining generations\<close>

text \<open>
  C1. For a resolved identity with a user row, when Clerk, the database and the
  subscription lookup answer: the evaluator returns a decision whose
  \<open>remainingGenerations\<close> is \<open>max(0, limit - count)\<close>, where \<open>limit\<close> is 30 when the first
  subscription returned has the status \<open>active\<close> and 10 otherwise (also when none is
  returned), and \<open>count\<close> is the number of the user's usage events in the billing window
  \<open>[ps, pe]\<close>. In particular a non-subscriber with 5 events in the window gets
  \<open>remainingGenerations = 5\<close> and \<open>isEligible = true\<close>.
\<close>

theorem C1_limit_and_remaining:
  assumes "clerk_ok w" "prisma_ok w"
    and "resolved (session_userId w) (session_user w) = Some (uid, u)"
    and "find (\<lambda>r. db_id r = uid) (user_table w) = Some row"
    and "fst (hasSubscription w) = Inr info"
    and "billing_period (clock w) (subscriptionData info) = (sub, ps, pe)"
  shows "\<exists>d. fst (checkLessonPlanCreationEligibility w) = Inr d \<and>
           remainingGenerations d =
             max 0 ((if (case subscriptionData info of [] \<Rightarrow> False | s # _ \<Rightarrow> status s = ''active'')
                     then 30 else 10)
                    - int (length [r \<leftarrow> lessonPlan_table w.
                                     userId r = uid \<and> ps \<le> createdAt r \<and> createdAt r \<le> pe])) \<and>
           ((case subscriptionData info of [] \<Rightarrow> True | s # _ \<Rightarrow> status s \<noteq> ''active'') \<and>
            length [r \<leftarrow> lessonPlan_table w.
                      userId r = uid \<and> ps \<le> createdAt r \<and> createdAt r \<le> pe] = 5
            \<longrightarrow> remainingGenerations d = 5 \<and> isEligible d = True)"
proof -
  have sub: "sub = (case subscriptionData info of [] \<Rightarrow> False | s # _ \<Rightarrow> status s = ''active'')"
    using assms(6) by (auto simp: billing_period_def split: list.splits)
  show ?thesis
    using check_resolved_fst[OF assms]
    unfolding sub
    by (auto simp: remaining_decision eligible_decision split: list.splits)
qed

text \<open>A non-subscriber with five usage events in the trailing window.\<close>

theorem C1_limit_and_remaining_witness:
  "clerk_ok world_free_5 \<and> prisma_ok world_free_5 \<and>
   resolved (session_userId world_free_5) (session_user world_free_5) =
     Some (''user_1'', person ''user_1'') \<and>
   find (\<lambda>r. db_id r = ''user_1'') (user_table world_free_5) =
     Some \<lparr>db_id = ''user_1'', stripe_customer_id = None\<rparr> \<and>
   fst (hasSubscription world_free_5) = Inr \<lparr>isSubscribed = False, subscriptionData = []\<rparr> \<and>
   billing_period (clock world_free_5) [] = (False, 1699956800000, 1700000000000) \<and>
   length [r \<leftarrow> lessonPlan_table world_free_5.
             userId r = ''user_1'' \<and> 1699956800000 \<le> createdAt r \<and> createdAt r \<le> 1700000000000] = 5 \<and>
   (\<exists>d. fst (checkLessonPlanCreationEligibility world_free_5) = Inr d \<and>
        remainingGenerations d = 5 \<and> isEligible d = True)"
proof -
  note h = example_world_resolved[of None "[]" "replicate 5 (plan_at 1700000000000)" 1700000000000,
      folded world_free_5_def]
  have h5: "fst (hasSubscription world_free_5) = Inr \<lparr>isSubscribed = False, subscriptionData = []\<rparr>"
    unfolding world_free_5_def by (rule example_world_hasSubscription)
  have h6: "billing_period (clock world_free_5)
        (subscriptionData \<lparr>isSubscribed = False, subscriptionData = []\<rparr>) =
      (False, 1699956800000, 1700000000000)"
    by (simp add: billing_period_def world_free_5_def example_world_def)
  have n: "length [r \<leftarrow> lessonPlan_table world_free_5.
             userId r = ''user_1'' \<and> 1699956800000 \<le> createdAt r \<and> createdAt r \<le> 1700000000000] = 5"
    by (simp add: world_free_5_def example_defs count_replicate)
  have c: "\<exists>d. fst (checkLessonPlanCreationEligibility world_free_5) = Inr d \<and>
        remainingGenerations d = 5 \<and> isEligible d = True"
    using C1_limit_and_remaining [OF h h5 h6] n by simp
  show ?thesis
    using h h5 h6 n c by simp
qed

subsection \<open>Unresolved identities\<close>

text \<open>
  C2. When Clerk answers and the identity is not resolved (no truthy \<open>userId\<close>, or no
  \<open>user\<close>), or the identity is resolved and the database answers that there is no row
  with that id, the evaluator returns (it does not throw) the decision
  \<open>{isEligible: false, message: "You must be logged in ...", remainingGenerations: 0}\<close>.
  It leaves the world as it was except for the log, and the calls it adds to the log are
  the two Clerk calls and, for a resolved identity, the lookup of the user row: neither
  the subscription list nor the usage count is asked for, whether or not Stripe would
  answer.
\<close>

theorem C2_unresolved_identity:
  assumes "clerk_ok w"
    and "resolved (session_userId w) (session_user w) = None \<or>
         (\<exists>uid u. resolved (session_userId w) (session_user w) = Some (uid, u) \<and> prisma_ok w \<and>
            find (\<lambda>r. db_id r = uid) (user_table w) = None)"
  shows "checkLessonPlanCreationEligibility w =
           (Inr \<lparr>isEligible = False,
                 message = ''You must be logged in to see how many lesson plans you can make.'',
                 remainingGenerations = 0\<rparr>,
            w\<lparr>calls := calls w @ [ClerkAuth, ClerkCurrentUser] @
                 (case resolved (session_userId w) (session_user w) of
                    None \<Rightarrow> []
                  | Some (uid, u) \<Rightarrow> [UserFindUnique uid])\<rparr>)"
  using assms(2)
proof
  assume "resolved (session_userId w) (session_user w) = None"
  then show ?thesis
    using assms(1)
    by (simp add: checkLessonPlanCreationEligibility_def action_defs auth_required_def)
next
  assume "\<exists>uid u. resolved (session_userId w) (session_user w) = Some (uid, u) \<and> prisma_ok w \<and>
            find (\<lambda>r. db_id r = uid) (user_table w) = None"
  then obtain uid u where "resolved (session_userId w) (session_user w) = Some (uid, u)"
    and "prisma_ok w" and "find (\<lambda>r. db_id r = uid) (user_table w) = None"
    by blast
  then show ?thesis
    using assms(1)
    by (simp add: checkLessonPlanCreationEligibility_def action_defs auth_required_def)
qed

text \<open>
  Two sessions where Stripe does not answer: nobody is signed in; and \<open>user_2\<close> is signed
  in but has no row.
\<close>

theorem C2_unresolved_identity_witness:
  "clerk_ok world_signed_out \<and>
   resolved (session_userId world_signed_out) (session_user world_signed_out) = None \<and>
   checkLessonPlanCreationEligibility world_signed_out =
     (Inr \<lparr>isEligible = False,
           message = ''You must be logged in to see how many lesson plans you can make.'',
           remainingGenerations = 0\<rparr>,
      world_signed_out\<lparr>calls := [ClerkAuth, ClerkCurrentUser]\<rparr>) \<and>
   clerk_ok world_no_row \<and> prisma_ok world_no_row \<and>
   resolved (session_userId world_no_row) (session_user world_no_row) =
     Some (''user_2'', person ''user_2'') \<and>
   find (\<lambda>r. db_id r = ''user_2'') (user_table world_no_row) = None \<and>
   checkLessonPlanCreationEligibility world_no_row =
     (Inr \<lparr>isEligible = False,
           message = ''You must be logged in to see how many lesson plans you can make.'',
           remainingGenerations = 0\<rparr>,
      world_no_row\<lparr>calls := [ClerkAuth, ClerkCurrentUser, UserFindUnique ''user_2'']\<rparr>)"
  using C2_unresolved_identity [of world_signed_out] C2_unresolved_identity [of world_no_row]
  by (simp add: world_signed_out_def world_no_row_def example_world_def resolved_def)

subsection \<open>A subscription that is not active\<close>

text \<open>
  C3. When the first subscription returned has a status other than \<open>active\<close> (for
  example \<open>canceled\<close>), the usage count the evaluator asks for is that of the window from
  the subscription's \<open>current_period_start\<close> to its \<open>current_period_end\<close> (both times
  1000, in milliseconds), and the limit applied to that count is 10, not 30:
  \<open>remainingGenerations = max(0, 10 - count)\<close>.
\<close>

theorem C3_inactive_subscription:
  assumes "clerk_ok w" "prisma_ok w"
    and "resolved (session_userId w) (session_user w) = Some (uid, u)"
    and "find (\<lambda>r. db_id r = uid) (user_table w) = Some row"
    and "fst (hasSubscription w) = Inr info"
    and "subscriptionData info = s # rest"
    and "status s \<noteq> ''active''"
  shows "last (calls (snd (checkLessonPlanCreationEligibility w))) =
           LessonPlanCount uid (current_period_start s * 1000) (current_period_end s * 1000) \<and>
         (\<exists>d. fst (checkLessonPlanCreationEligibility w) = Inr d \<and>
              remainingGenerations d =
                max 0 (10 - int (length [r \<leftarrow> lessonPlan_table w.
                                           userId r = uid \<and>
                                           current_period_start s * 1000 \<le> createdAt r \<and>
                                           createdAt r \<le> current_period_end s * 1000])))"
proof -
  have bp: "billing_period (clock w) (subscriptionData info) =
      (False, current_period_start s * 1000, current_period_end s * 1000)"
    using assms(6,7) by (simp add: billing_period_def)
  show ?thesis
    using check_resolved_fst[OF assms(1-5) bp] check_resolved_last_call[OF assms(1-5) bp]
    by (simp add: remaining_decision)
qed

text \<open>
  A canceled subscription for November 2023: the two events at the ends of the period
  count, the two a millisecond outside and the other user's do not.
\<close>

theorem C3_inactive_subscription_witness:
  "clerk_ok world_canceled \<and> prisma_ok world_canceled \<and>
   resolved (session_userId world_canceled) (session_user world_canceled) =
     Some (''user_1'', person ''user_1'') \<and>
   find (\<lambda>r. db_id r = ''user_1'') (user_table world_canceled) =
     Some \<lparr>db_id = ''user_1'', stripe_customer_id = Some ''cus_1''\<rparr> \<and>
   fst (hasSubscription world_canceled) =
     Inr \<lparr>isSubscribed = True, subscriptionData = [november ''canceled'']\<rparr> \<and>
   status (november ''canceled'') \<noteq> ''active'' \<and>
   last (calls (snd (checkLessonPlanCreationEligibility world_canceled))) =
     LessonPlanCount ''user_1'' 1698796800000 1701388800000 \<and>
   (\<exists>d. fst (checkLessonPlanCreationEligibility world_canceled) = Inr d \<and>
        remainingGenerations d = 8)"
proof -
  note h = example_world_resolved[of "Some ''cus_1''" "[november ''canceled'']" boundary_plans
      1700000000000, folded world_canceled_def]
  have h5: "fst (hasSubscription world_canceled) =
     Inr \<lparr>isSubscribed = True, subscriptionData = [november ''canceled'']\<rparr>"
    unfolding world_canceled_def by (simp add: example_world_hasSubscription)
  have h6: "subscriptionData \<lparr>isSubscribed = True, subscriptionData = [november ''canceled'']\<rparr> =
      november ''canceled'' # []"
    by simp
  have h7: "status (november ''canceled'') \<noteq> ''active''"
    by (simp add: november_def)
  have c: "last (calls (snd (checkLessonPlanCreationEligibility world_canceled))) =
     LessonPlanCount ''user_1'' 1698796800000 1701388800000 \<and>
   (\<exists>d. fst (checkLessonPlanCreationEligibility world_canceled) = Inr d \<and>
        remainingGenerations d = 8)"
    using C3_inactive_subscription [OF h h5 h6 h7]
    by (simp add: world_canceled_def example_defs)
  show ?thesis
    using h h5 h7 c by simp
qed

subsection \<open>No subscription\<close>

text \<open>
  C4. When the subscription list returned is empty, the evaluator's \<open>isSubscribed\<close> is
  false and its window ends at the current time and starts \<open>30 * 24 * 60 * 1000\<close> ms
  before it: that is 43200 seconds (12 hours), not 30 days. The usage count it asks for
  is that of this window, and the limit applied is 10.
\<close>

theorem C4_no_subscription_window:
  assumes "clerk_ok w" "prisma_ok w"
    and "resolved (session_userId w) (session_user w) = Some (uid, u)"
    and "find (\<lambda>r. db_id r = uid) (user_table w) = Some row"
    and "fst (hasSubscription w) = Inr info"
    and "subscriptionData info = []"
  shows "billing_period (clock w) (subscriptionData info) =
           (False, clock w - 43200 * 1000, clock w) \<and>
         (43200 :: int) = 12 * 60 * 60 \<and>
         last (calls (snd (checkLessonPlanCreationEligibility w))) =
           LessonPlanCount uid (clock w - 43200 * 1000) (clock w) \<and>
         (\<exists>d. fst (checkLessonPlanCreationEligibility w) = Inr d \<and>
              remainingGenerations d =
                max 0 (10 - int (length [r \<leftarrow> lessonPlan_table w.
                                           userId r = uid \<and>
                                           clock w - 43200 * 1000 \<le> createdAt r \<and>
                                           createdAt r \<le> clock w])))"
proof -
  have bp: "billing_period (clock w) (subscriptionData info) =
      (False, clock w - 43200 * 1000, clock w)"
    using assms(6) by (simp add: billing_period_def)
  show ?thesis
    using bp check_resolved_fst[OF assms(1-5) bp] check_resolved_last_call[OF assms(1-5) bp]
    by (simp add: remaining_decision)
qed

text \<open>
  A customer without subscriptions: the events at the two ends of the 43200000 ms window
  count, the two a millisecond outside do not.
\<close>

theorem C4_no_subscription_window_witness:
  "clerk_ok world_no_subscription \<and> prisma_ok world_no_subscription \<and>
   resolved (session_userId world_no_subscription) (session_user world_no_subscription) =
     Some (''user_1'', person ''user_1'') \<and>
   find (\<lambda>r. db_id r = ''user_1'') (user_table world_no_subscription) =
     Some \<lparr>db_id = ''user_1'', stripe_customer_id = Some ''cus_1''\<rparr> \<and>
   fst (hasSubscription world_no_subscription) = Inr \<lparr>isSubscribed = False, subscriptionData = []\<rparr> \<and>
   clock world_no_subscription = 1700000000000 \<and>
   last (calls (snd (checkLessonPlanCreationEligibility world_no_subscription))) =
     LessonPlanCount ''user_1'' 1699956800000 1700000000000 \<and>
   (\<exists>d. fst (checkLessonPlanCreationEligibility world_no_subscription) = Inr d \<and>
        remainingGenerations d = 8)"
proof -
  note h = example_world_resolved[of "Some ''cus_1''" "[]"
      "[plan_at 1699956800000, plan_at 1700000000000, plan_at 1699956799999, plan_at 1700000000001]"
      1700000000000, folded world_no_subscription_def]
  have h5: "fst (hasSubscription world_no_subscription) =
      Inr \<lparr>isSubscribed = False, subscriptionData = []\<rparr>"
    unfolding world_no_subscription_def by (simp add: example_world_hasSubscription)
  have h6: "subscriptionData \<lparr>isSubscribed = False, subscriptionData = []\<rparr> = []"
    by simp
  have k: "clock world_no_subscription = 1700000000000"
    by (simp add: world_no_subscription_def example_world_def)
  have c: "last (calls (snd (checkLessonPlanCreationEligibility world_no_subscription))) =
     LessonPlanCount ''user_1'' 1699956800000 1700000000000 \<and>
   (\<exists>d. fst (checkLessonPlanCreationEligibility world_no_subscription) = Inr d \<and>
        remainingGenerations d = 8)"
    using C4_no_subscription_window [OF h h5 h6]
    by (simp add: world_no_subscription_def example_defs)
  show ?thesis
    using h h5 k c by simp
qed

subsection \<open>The reset date of the free tier\<close>

text \<open>
  C5, as the code has it. For a non-subscriber (the evaluator's \<open>isSubscribed\<close> is false)
  with no generation remaining (10 or more usage events in the window), the reset date in
  the message is the locale's date of the current time plus \<open>24 + 60 * 60 * 1000\<close>
  milliseconds: 24 ms plus 3600 seconds, 3600024 ms in all, about one hour. It is not the
  date of the current time plus 24 hours, and not that of the current time plus 24
  seconds plus 3600 milliseconds.
\<close>

theorem C5_free_tier_reset_date:
  assumes "clerk_ok w" "prisma_ok w"
    and "resolved (session_userId w) (session_user w) = Some (uid, u)"
    and "find (\<lambda>r. db_id r = uid) (user_table w) = Some row"
    and "fst (hasSubscription w) = Inr info"
    and "billing_period (clock w) (subscriptionData info) = (False, ps, pe)"
    and "10 \<le> length [r \<leftarrow> lessonPlan_table w.
                      userId r = uid \<and> ps \<le> createdAt r \<and> createdAt r \<le> pe]"
  shows "fst (checkLessonPlanCreationEligibility w) =
           Inr \<lparr>isEligible = False,
                message =
                  ''You have reached the maximum number of lesson plan generations (10) for the free tier. You can generate more starting ''
                  @ toLocaleDateString w (clock w + (24 + 3600 * 1000)),
                remainingGenerations = 0\<rparr> \<and>
         clock w + (24 + 3600 * 1000) \<noteq> clock w + 24 * 60 * 60 * 1000"
proof -
  let ?n = "length [r \<leftarrow> lessonPlan_table w.
                      userId r = uid \<and> ps \<le> createdAt r \<and> createdAt r \<le> pe]"
  have "decision (toLocaleDateString w) (clock w) False pe ?n =
      \<lparr>isEligible = False,
       message =
         ''You have reached the maximum number of lesson plan generations (10) for the free tier. You can generate more starting ''
         @ toLocaleDateString w (clock w + (24 + 3600 * 1000)),
       remainingGenerations = 0\<rparr>"
    using assms(7) by (simp add: decision_def Let_def add.commute)
  then show ?thesis
    by (simp add: check_resolved_fst[OF assms(1-6)])
qed

text \<open>A non-subscriber with ten usage events in the window.\<close>

theorem C5_free_tier_reset_date_witness:
  "clerk_ok world_free_exhausted \<and> prisma_ok world_free_exhausted \<and>
   resolved (session_userId world_free_exhausted) (session_user world_free_exhausted) =
     Some (''user_1'', person ''user_1'') \<and>
   find (\<lambda>r. db_id r = ''user_1'') (user_table world_free_exhausted) =
     Some \<lparr>db_id = ''user_1'', stripe_customer_id = None\<rparr> \<and>
   fst (hasSubscription world_free_exhausted) = Inr \<lparr>isSubscribed = False, subscriptionData = []\<rparr> \<and>
   billing_period (clock world_free_exhausted) [] = (False, 1699959599976, 1700002799976) \<and>
   10 \<le> length [r \<leftarrow> lessonPlan_table world_free_exhausted.
                   userId r = ''user_1'' \<and> 1699959599976 \<le> createdAt r \<and>
                   createdAt r \<le> 1700002799976] \<and>
   fst (checkLessonPlanCreationEligibility world_free_exhausted) =
     Inr \<lparr>isEligible = False,
          message =
            ''You have reached the maximum number of lesson plan generations (10) for the free tier. You can generate more starting ''
            @ toLocaleDateString world_free_exhausted (1700002799976 + (24 + 3600 * 1000)),
          remainingGenerations = 0\<rparr>"
proof -
  note h = example_world_resolved[of None "[]" "replicate 10 (plan_at 1700000000000)" 1700002799976,
      folded world_free_exhausted_def]
  have h5: "fst (hasSubscription world_free_exhausted) =
      Inr \<lparr>isSubscribed = False, subscriptionData = []\<rparr>"
    unfolding world_free_exhausted_def by (rule example_world_hasSubscription)
  have k: "clock world_free_exhausted = 1700002799976"
    by (simp add: world_free_exhausted_def example_world_def)
  have h6: "billing_period (clock world_free_exhausted)
        (subscriptionData \<lparr>isSubscribed = False, subscriptionData = []\<rparr>) =
      (False, 1699959599976, 1700002799976)"
    by (simp add: billing_period_def k)
  have n: "10 \<le> length [r \<leftarrow> lessonPlan_table world_free_exhausted.
                   userId r = ''user_1'' \<and> 1699959599976 \<le> createdAt r \<and>
                   createdAt r \<le> 1700002799976]"
    by (simp add: world_free_exhausted_def example_defs count_replicate)
  have c: "fst (checkLessonPlanCreationEligibility world_free_exhausted) =
     Inr \<lparr>isEligible = False,
          message =
            ''You have reached the maximum number of lesson plan generations (10) for the free tier. You can generate more starting ''
            @ toLocaleDateString world_free_exhausted (1700002799976 + (24 + 3600 * 1000)),
          remainingGenerations = 0\<rparr>"
    using C5_free_tier_reset_date [OF h h5 h6 n, THEN conjunct1] by (simp only: k)
  show ?thesis
    using h h5 h6 n c by simp
qed

text \<open>
  The same call, made 3600024 ms before the end of day 19675: the message names day
  19676, the date of the current time plus \<open>24 + 60 * 60 * 1000\<close> ms. The date of the
  current time plus 24 seconds plus 3600 milliseconds, and that of the current time plus
  \<open>24 + 3600\<close> milliseconds, are day 19675.
\<close>

theorem C5_counterexample:
  "fst (checkLessonPlanCreationEligibility world_free_exhausted) =
     Inr \<lparr>isEligible = False,
          message = ''You have reached the maximum number of lesson plan generations (10) for the free tier. You can generate more starting day 19676'',
          remainingGenerations = 0\<rparr> \<and>
   toLocaleDateString world_free_exhausted (clock world_free_exhausted + 24 + 60 * 60 * 1000) =
     ''day 19676'' \<and>
   toLocaleDateString world_free_exhausted (clock world_free_exhausted + 24 * 1000 + 3600) =
     ''day 19675'' \<and>
   toLocaleDateString world_free_exhausted (clock world_free_exhausted + 24 + 3600) =
     ''day 19675'' \<and>
   fst (checkLessonPlanCreationEligibility world_free_exhausted) \<noteq>
     Inr \<lparr>isEligible = False,
          message =
            ''You have reached the maximum number of lesson plan generations (10) for the free tier. You can generate more starting ''
            @ toLocaleDateString world_free_exhausted (clock world_free_exhausted + 24 * 1000 + 3600),
          remainingGenerations = 0\<rparr>"
  by (simp add: check_world_free_exhausted)
    (simp add: world_free_exhausted_def example_defs digits.simps)

subsection \<open>The counting window\<close>

text \<open>
  C6. For a resolved identity with a user row, when the collaborators answer: the usage
  count the evaluator asks for is that of \<open>[periodStart, periodEnd]\<close>, and the count that
  enters the decision is the number of the user's events \<open>r\<close> with
  \<open>periodStart \<le> createdAt r\<close> and \<open>createdAt r \<le> periodEnd\<close>, both ends included. An
  active subscriber with exactly 30 events so counted gets \<open>isEligible = false\<close>,
  \<open>remainingGenerations = 0\<close> and a message that ends with the locale's date of
  \<open>current_period_end\<close> (times 1000, in milliseconds).
\<close>

theorem C6_inclusive_window:
  assumes "clerk_ok w" "prisma_ok w"
    and "resolved (session_userId w) (session_user w) = Some (uid, u)"
    and "find (\<lambda>r. db_id r = uid) (user_table w) = Some row"
    and "fst (hasSubscription w) = Inr info"
    and "billing_period (clock w) (subscriptionData info) = (sub, ps, pe)"
  shows "last (calls (snd (checkLessonPlanCreationEligibility w))) = LessonPlanCount uid ps pe \<and>
         (\<exists>d. fst (checkLessonPlanCreationEligibility w) = Inr d \<and>
              remainingGenerations d =
                max 0 ((if sub then 30 else 10)
                       - int (length [r \<leftarrow> lessonPlan_table w.
                                        userId r = uid \<and> ps \<le> createdAt r \<and> createdAt r \<le> pe]))) \<and>
         (\<forall>s rest.
            subscriptionData info = s # rest \<and> status s = ''active'' \<and>
            length [r \<leftarrow> lessonPlan_table w.
                      userId r = uid \<and> ps \<le> createdAt r \<and> createdAt r \<le> pe] = 30
            \<longrightarrow> fst (checkLessonPlanCreationEligibility w) =
                  Inr \<lparr>isEligible = False,
                       message =
                         ''You have reached the maximum number of lesson plans (30) for this subscription period. Reset Date: ''
                         @ toLocaleDateString w (current_period_end s * 1000),
                       remainingGenerations = 0\<rparr>)"
proof (intro conjI allI impI)
  show "last (calls (snd (checkLessonPlanCreationEligibility w))) = LessonPlanCount uid ps pe"
    by (rule check_resolved_last_call[OF assms])
next
  show "\<exists>d. fst (checkLessonPlanCreationEligibility w) = Inr d \<and>
              remainingGenerations d =
                max 0 ((if sub then 30 else 10)
                       - int (length [r \<leftarrow> lessonPlan_table w.
                                        userId r = uid \<and> ps \<le> createdAt r \<and> createdAt r \<le> pe]))"
    using check_resolved_fst[OF assms] by (simp add: remaining_decision)
next
  fix s rest
  assume a: "subscriptionData info = s # rest \<and> status s = ''active'' \<and>
            length [r \<leftarrow> lessonPlan_table w.
                      userId r = uid \<and> ps \<le> createdAt r \<and> createdAt r \<le> pe] = 30"
  then have "sub = True" and "pe = current_period_end s * 1000"
    using assms(6) by (simp_all add: billing_period_def)
  then show "fst (checkLessonPlanCreationEligibility w) =
                  Inr \<lparr>isEligible = False,
                       message =
                         ''You have reached the maximum number of lesson plans (30) for this subscription period. Reset Date: ''
                         @ toLocaleDateString w (current_period_end s * 1000),
                       remainingGenerations = 0\<rparr>"
    using check_resolved_fst[OF assms] a by (simp add: decision_def Let_def)
qed

text \<open>
  An active subscription for November 2023 and 33 usage events: the fifteen at the first
  and the fifteen at the last millisecond of the period count, the two a millisecond
  outside and the other user's do not.
\<close>

theorem C6_inclusive_window_witness:
  "clerk_ok world_active_30 \<and> prisma_ok world_active_30 \<and>
   resolved (session_userId world_active_30) (session_user world_active_30) =
     Some (''user_1'', person ''user_1'') \<and>
   find (\<lambda>r. db_id r = ''user_1'') (user_table world_active_30) =
     Some \<lparr>db_id = ''user_1'', stripe_customer_id = Some ''cus_1''\<rparr> \<and>
   fst (hasSubscription world_active_30) =
     Inr \<lparr>isSubscribed = True, subscriptionData = [november ''active'']\<rparr> \<and>
   billing_period (clock world_active_30) [november ''active''] =
     (True, 1698796800000, 1701388800000) \<and>
   status (november ''active'') = ''active'' \<and>
   length [r \<leftarrow> lessonPlan_table world_active_30.
             userId r = ''user_1'' \<and> 1698796800000 \<le> createdAt r \<and> createdAt r \<le> 1701388800000] = 30 \<and>
   length (lessonPlan_table world_active_30) = 33 \<and>
   last (calls (snd (checkLessonPlanCreationEligibility world_active_30))) =
     LessonPlanCount ''user_1'' 1698796800000 1701388800000 \<and>
   fst (checkLessonPlanCreationEligibility world_active_30) =
     Inr \<lparr>isEligible = False,
          message =
            ''You have reached the maximum number of lesson plans (30) for this subscription period. Reset Date: ''
            @ toLocaleDateString world_active_30 (current_period_end (november ''active'') * 1000),
          remainingGenerations = 0\<rparr>"
proof -
  note h = example_world_resolved[of "Some ''cus_1''" "[november ''active'']"
      "replicate 14 (plan_at 1698796800000) @ replicate 14 (plan_at 1701388800000) @ boundary_plans"
      1700000000000, folded world_active_30_def]
  have h5: "fst (hasSubscription world_active_30) =
     Inr \<lparr>isSubscribed = True, subscriptionData = [november ''active'']\<rparr>"
    unfolding world_active_30_def by (simp add: example_world_hasSubscription)
  have h6: "billing_period (clock world_active_30)
        (subscriptionData \<lparr>isSubscribed = True, subscriptionData = [november ''active'']\<rparr>) =
      (True, 1698796800000, 1701388800000)"
    by (simp add: billing_period_def november_def)
  have st: "status (november ''active'') = ''active''"
    by (simp add: november_def)
  have n: "length [r \<leftarrow> lessonPlan_table world_active_30.
             userId r = ''user_1'' \<and> 1698796800000 \<le> createdAt r \<and> createdAt r \<le> 1701388800000] = 30"
    by (simp add: world_active_30_def example_defs count_replicate)
  have m: "length (lessonPlan_table world_active_30) = 33"
    by (simp add: world_active_30_def example_defs)
  note c = C6_inclusive_window [OF h h5 h6]
  have c1: "last (calls (snd (checkLessonPlanCreationEligibility world_active_30))) =
     LessonPlanCount ''user_1'' 1698796800000 1701388800000"
    using c by blast
  have c3: "fst (checkLessonPlanCreationEligibility world_active_30) =
     Inr \<lparr>isEligible = False,
          message =
            ''You have reached the maximum number of lesson plans (30) for this subscription period. Reset Date: ''
            @ toLocaleDateString world_active_30 (current_period_end (november ''active'') * 1000),
          remainingGenerations = 0\<rparr>"
    using c st n by simp
  show ?thesis
    using h h5 h6 st n m c1 c3 by simp
qed

subsection \<open>Calling the evaluator twice\<close>

text \<open>
  C7, as the code has it. A second call made in the world the first call left (the same
  session, the same rows, the same subscriptions, the same usage events and the same
  clock reading) gives the same result as the first, a decision or a failure. When the
  first subscription is active the result is the same whatever the clock reads at the
  second call. (For the other users the window and the reset date follow the clock.)
\<close>

theorem C7_repeated_call:
  "fst (checkLessonPlanCreationEligibility (snd (checkLessonPlanCreationEligibility w))) =
     fst (checkLessonPlanCreationEligibility w) \<and>
   (\<forall>t uid u row info s rest.
      clerk_ok w \<and> prisma_ok w \<and>
      resolved (session_userId w) (session_user w) = Some (uid, u) \<and>
      find (\<lambda>r. db_id r = uid) (user_table w) = Some row \<and>
      fst (hasSubscription w) = Inr info \<and>
      subscriptionData info = s # rest \<and> status s = ''active''
      \<longrightarrow> fst (checkLessonPlanCreationEligibility
                 ((snd (checkLessonPlanCreationEligibility w))\<lparr>clock := t\<rparr>)) =
          fst (checkLessonPlanCreationEligibility w))"
proof -
  obtain l where l: "snd (checkLessonPlanCreationEligibility w) = w\<lparr>calls := l\<rparr>"
    by (metis check_calls_only)
  have first: "fst (checkLessonPlanCreationEligibility (snd (checkLessonPlanCreationEligibility w))) =
     fst (checkLessonPlanCreationEligibility w)"
    by (simp only: l check_ignores_calls)
  have later: "fst (checkLessonPlanCreationEligibility
                 ((snd (checkLessonPlanCreationEligibility w))\<lparr>clock := t\<rparr>)) =
          fst (checkLessonPlanCreationEligibility w)"
    if h: "clerk_ok w" "prisma_ok w"
      "resolved (session_userId w) (session_user w) = Some (uid, u)"
      "find (\<lambda>r. db_id r = uid) (user_table w) = Some row"
      "fst (hasSubscription w) = Inr info"
      and s: "subscriptionData info = s # rest" "status s = ''active''"
    for t uid u row info s rest
  proof -
    let ?w' = "w\<lparr>clock := t, calls := l\<rparr>"
    have bp: "billing_period c (subscriptionData info) =
        (True, current_period_start s * 1000, current_period_end s * 1000)" for c
      using s by (simp add: billing_period_def)
    have h1: "clerk_ok ?w'" and h2: "prisma_ok ?w'"
      and h3: "resolved (session_userId ?w') (session_user ?w') = Some (uid, u)"
      and h4: "find (\<lambda>r. db_id r = uid) (user_table ?w') = Some row"
      using h(1-4) by simp_all
    have h5: "fst (hasSubscription ?w') = Inr info"
      using h(5) by (simp only: hasSubscription_ignores)
    have "fst (checkLessonPlanCreationEligibility ?w') = fst (checkLessonPlanCreationEligibility w)"
      using check_resolved_fst[OF h1 h2 h3 h4 h5 bp] check_resolved_fst[OF h bp]
        decision_subscribed[of "toLocaleDateString w" t _ _ "clock w"]
      by simp
    then show ?thesis
      by (simp add: l clock_calls_commute)
  qed
  show ?thesis
    using first later by blast
qed

text \<open>
  The second call in the world the first one left; and, for an active subscriber, the
  second call a day later.
\<close>

theorem C7_repeated_call_witness:
  "fst (checkLessonPlanCreationEligibility (snd (checkLessonPlanCreationEligibility world_window_edge))) =
     fst (checkLessonPlanCreationEligibility world_window_edge) \<and>
   clerk_ok world_active_30 \<and> prisma_ok world_active_30 \<and>
   resolved (session_userId world_active_30) (session_user world_active_30) =
     Some (''user_1'', person ''user_1'') \<and>
   find (\<lambda>r. db_id r = ''user_1'') (user_table world_active_30) =
     Some \<lparr>db_id = ''user_1'', stripe_customer_id = Some ''cus_1''\<rparr> \<and>
   fst (hasSubscription world_active_30) =
     Inr \<lparr>isSubscribed = True, subscriptionData = [november ''active'']\<rparr> \<and>
   status (november ''active'') = ''active'' \<and>
   fst (checkLessonPlanCreationEligibility
          ((snd (checkLessonPlanCreationEligibility world_active_30))
             \<lparr>clock := clock world_active_30 + 86400000\<rparr>)) =
     fst (checkLessonPlanCreationEligibility world_active_30)"
proof -
  note h = example_world_resolved[of "Some ''cus_1''" "[november ''active'']"
      "replicate 14 (plan_at 1698796800000) @ replicate 14 (plan_at 1701388800000) @ boundary_plans"
      1700000000000, folded world_active_30_def]
  have h5: "fst (hasSubscription world_active_30) =
     Inr \<lparr>isSubscribed = True, subscriptionData = [november ''active'']\<rparr>"
    unfolding world_active_30_def by (simp add: example_world_hasSubscription)
  have h6: "subscriptionData \<lparr>isSubscribed = True, subscriptionData = [november ''active'']\<rparr> =
      november ''active'' # []"
    by simp
  have st: "status (november ''active'') = ''active''"
    by (simp add: november_def)
  have c1: "fst (checkLessonPlanCreationEligibility (snd (checkLessonPlanCreationEligibility world_window_edge))) =
     fst (checkLessonPlanCreationEligibility world_window_edge)"
    using C7_repeated_call [of world_window_edge] by (rule conjunct1)
  have c2: "fst (checkLessonPlanCreationEligibility
          ((snd (checkLessonPlanCreationEligibility world_active_30))
             \<lparr>clock := clock world_active_30 + 86400000\<rparr>)) =
     fst (checkLessonPlanCreationEligibility world_active_30)"
    using C7_repeated_call [of world_active_30] h h5 h6 st by blast
  show ?thesis
    using h h5 st c1 c2 by simp
qed

text \<open>
  A non-subscriber whose only usage event is exactly 43200000 ms old at the first call.
  The second call is made one millisecond later, with the same session, rows,
  subscriptions and usage events: the event has left the window, and the decision says 10
  generations remain where the first said 9.
\<close>

theorem C7_counterexample:
  "fst (checkLessonPlanCreationEligibility
     ((snd (checkLessonPlanCreationEligibility world_window_edge))
        \<lparr>clock := clock world_window_edge + 1\<rparr>)) \<noteq>
     fst (checkLessonPlanCreationEligibility world_window_edge) \<and>
   lessonPlan_table
     ((snd (checkLessonPlanCreationEligibility world_window_edge))
        \<lparr>clock := clock world_window_edge + 1\<rparr>) = lessonPlan_table world_window_edge \<and>
   fst (hasSubscription
     ((snd (checkLessonPlanCreationEligibility world_window_edge))
        \<lparr>clock := clock world_window_edge + 1\<rparr>)) = fst (hasSubscription world_window_edge) \<and>
   fst (checkLessonPlanCreationEligibility world_window_edge) =
     Inr \<lparr>isEligible = True,
          message = ''You have 9 lesson plan generations remaining for this month'',
          remainingGenerations = 9\<rparr> \<and>
   fst (checkLessonPlanCreationEligibility
     ((snd (checkLessonPlanCreationEligibility world_window_edge))
        \<lparr>clock := clock world_window_edge + 1\<rparr>)) =
     Inr \<lparr>isEligible = True,
          message = ''You have 10 lesson plan generations remaining for this month'',
          remainingGenerations = 10\<rparr>"
proof -
  obtain l where l: "snd (checkLessonPlanCreationEligibility world_window_edge) =
      world_window_edge\<lparr>calls := l\<rparr>"
    by (metis check_calls_only)
  have w2: "(snd (checkLessonPlanCreationEligibility world_window_edge))
        \<lparr>clock := clock world_window_edge + 1\<rparr> =
      world_window_edge\<lparr>clock := clock world_window_edge + 1, calls := l\<rparr>"
    by (simp add: l clock_calls_commute)
  have "world_window_edge\<lparr>clock := clock world_window_edge + 1, calls := l\<rparr> =
      (world_window_edge\<lparr>clock := clock world_window_edge + 1\<rparr>)\<lparr>calls := l\<rparr>"
    by simp
  then have second: "fst (checkLessonPlanCreationEligibility
      (world_window_edge\<lparr>clock := clock world_window_edge + 1, calls := l\<rparr>)) =
     Inr \<lparr>isEligible = True,
          message = ''You have 10 lesson plan generations remaining for this month'',
          remainingGenerations = 10\<rparr>"
    by (simp only: check_ignores_calls check_world_window_edge_later)
  show ?thesis
    unfolding w2
    by (simp add: second check_world_window_edge hasSubscription_ignores)
qed

subsection \<open>The invariant of a decision\<close>

text \<open>
  C8. Every decision the evaluator returns has \<open>0 \<le> remainingGenerations \<le> 30\<close> and
  \<open>isEligible = (remainingGenerations > 0)\<close>: no decision is eligible with nothing
  remaining, or ineligible with something remaining.
\<close>

theorem C8_decision_invariant:
  assumes "fst (checkLessonPlanCreationEligibility w) = Inr d"
  shows "0 \<le> remainingGenerations d \<and> remainingGenerations d \<le> 30 \<and>
         isEligible d = (remainingGenerations d > 0)"
proof -
  have "d = auth_required \<or> (\<exists>fmt now sub pe n. d = decision fmt now sub pe n)"
    using assms
    by (simp add: checkLessonPlanCreationEligibility_def action_defs
        split: option.splits prod.splits sum.splits if_splits) blast+
  then show ?thesis
    using decision_bounds eligible_decision by (auto simp: auth_required_def)
qed

text \<open>The decision for the non-subscriber with five usage events.\<close>

theorem C8_decision_invariant_witness:
  "fst (checkLessonPlanCreationEligibility world_free_5) =
     Inr \<lparr>isEligible = True,
          message = ''You have 5 lesson plan generations remaining for this month'',
          remainingGenerations = 5\<rparr> \<and>
   (0 \<le> remainingGenerations
          \<lparr>isEligible = True,
           message = ''You have 5 lesson plan generations remaining for this month'',
           remainingGenerations = 5\<rparr> \<and>
    remainingGenerations
          \<lparr>isEligible = True,
           message = ''You have 5 lesson plan generations remaining for this month'',
           remainingGenerations = 5\<rparr> \<le> 30 \<and>
    isEligible
          \<lparr>isEligible = True,
           message = ''You have 5 lesson plan generations remaining for this month'',
           remainingGenerations = 5\<rparr> =
      (remainingGenerations
          \<lparr>isEligible = True,
           message = ''You have 5 lesson plan generations remaining for this month'',
           remainingGenerations = 5\<rparr> > 0))"
  by (rule conjI [OF check_world_free_5 C8_decision_invariant [OF check_world_free_5]])

subsection \<open>createCustomerIfNull with an existing customer\<close>

text \<open>
  C9. When \<open>currentUser()\<close> gives a user, the database answers, and the user's row holds
  a \<open>stripe_customer_id\<close> (a non-empty string: what the source's truthiness test takes
  for an identifier), \<open>createCustomerIfNull\<close> returns that identifier. The world after the
  call is the world before it with two calls added to the log, \<open>currentUser()\<close> and the
  lookup of the row: no customer is created and no row is updated, so the user table and
  the provider's customers are unchanged, whether or not Stripe would answer.
\<close>

theorem C9_existing_customer:
  assumes "clerk_ok w" "prisma_ok w"
    and "session_user w = Some u"
    and "find (\<lambda>r. db_id r = clerk_id u) (user_table w) = Some row"
    and "stripe_customer_id row = Some cid" and "cid \<noteq> []"
  shows "createCustomerIfNull w =
           (Inr cid, w\<lparr>calls := calls w @ [ClerkCurrentUser, UserFindUnique (clerk_id u)]\<rparr>) \<and>
         user_table (snd (createCustomerIfNull w)) = user_table w \<and>
         stripe_customers (snd (createCustomerIfNull w)) = stripe_customers w"
  using assms
  by (simp add: createCustomerIfNull_def action_defs optional_customer_id_def truthy_def
      to_String_def)

text \<open>\<open>user_1\<close> with the customer \<open>cus_1\<close>, while Stripe does not answer.\<close>

theorem C9_existing_customer_witness:
  "clerk_ok world_with_customer \<and> prisma_ok world_with_customer \<and>
   session_user world_with_customer = Some (person ''user_1'') \<and>
   find (\<lambda>r. db_id r = clerk_id (person ''user_1'')) (user_table world_with_customer) =
     Some \<lparr>db_id = ''user_1'', stripe_customer_id = Some ''cus_1''\<rparr> \<and>
   createCustomerIfNull world_with_customer =
     (Inr ''cus_1'',
      world_with_customer\<lparr>calls := [ClerkCurrentUser, UserFindUnique ''user_1'']\<rparr>) \<and>
   user_table (snd (createCustomerIfNull world_with_customer)) = user_table world_with_customer \<and>
   stripe_customers (snd (createCustomerIfNull world_with_customer)) = []"
  using C9_existing_customer
    [of world_with_customer "person ''user_1''"
        "\<lparr>db_id = ''user_1'', stripe_customer_id = Some ''cus_1''\<rparr>" "''cus_1''"]
  by (simp add: world_with_customer_def example_world_def person_def)

text \<open>
  For contrast, the other branch: with no customer identifier in the row the function
  creates a customer and stores its identifier in the row.
\<close>

lemma createCustomerIfNull_creates:
  "createCustomerIfNull (example_world (Some ''user_1'') None [] [] 0) =
     (Inr ''cus_2'',
      (example_world (Some ''user_1'') (Some ''cus_2'') [] [] 0)
        \<lparr>stripe_customers := [\<lparr>customer_id = ''cus_2'', customer_email = ''ada@example.com'',
                                 customer_name = ''Ada null''\<rparr>],
         calls := [ClerkCurrentUser, UserFindUnique ''user_1'',
                   CustomersCreate ''ada@example.com'' ''Ada null'',
                   UserUpdate ''user_1'' ''cus_2'']\<rparr>)"
  by (simp add: createCustomerIfNull_def action_defs optional_customer_id_def example_defs
      first_emailAddress_def digits_small Let_def)

subsection \<open>hasSubscription and the status\<close>

text \<open>
  C10. For a resolved identity whose row holds a customer identifier, when the
  collaborators answer: \<open>hasSubscription\<close> returns the list Stripe gives for that
  customer, with \<open>isSubscribed\<close> true exactly when the list is not empty; no status is
  read. So when the only subscription is not active (canceled, say), \<open>hasSubscription\<close>
  says \<open>isSubscribed = true\<close>, while the evaluator applies the limit 10:
  \<open>remainingGenerations = max(0, 10 - count)\<close>.
\<close>

theorem C10_hasSubscription_any_status:
  assumes "clerk_ok w" "prisma_ok w" "stripe_ok w"
    and "resolved (session_userId w) (session_user w) = Some (uid, u)"
    and "find (\<lambda>r. db_id r = uid) (user_table w) = Some row"
    and "stripe_customer_id row = Some cid" and "cid \<noteq> []"
  shows "fst (hasSubscription w) =
           Inr \<lparr>isSubscribed = (stripe_subscriptions w cid \<noteq> []),
                subscriptionData = stripe_subscriptions w cid\<rparr> \<and>
         (\<forall>s. stripe_subscriptions w cid = [s] \<and> status s \<noteq> ''active'' \<longrightarrow>
            (\<exists>d. fst (checkLessonPlanCreationEligibility w) = Inr d \<and>
                 remainingGenerations d =
                   max 0 (10 - int (length [r \<leftarrow> lessonPlan_table w.
                                              userId r = uid \<and>
                                              current_period_start s * 1000 \<le> createdAt r \<and>
                                              createdAt r \<le> current_period_end s * 1000]))))"
proof (intro conjI allI impI)
  show hs: "fst (hasSubscription w) =
           Inr \<lparr>isSubscribed = (stripe_subscriptions w cid \<noteq> []),
                subscriptionData = stripe_subscriptions w cid\<rparr>"
    using assms(3,6,7) hasSubscription_resolved[OF assms(1,2,4,5)]
    by (simp add: truthy_def to_String_def)
  fix s
  assume a: "stripe_subscriptions w cid = [s] \<and> status s \<noteq> ''active''"
  have bp: "billing_period (clock w)
       (subscriptionData \<lparr>isSubscribed = (stripe_subscriptions w cid \<noteq> []),
                          subscriptionData = stripe_subscriptions w cid\<rparr>) =
      (False, current_period_start s * 1000, current_period_end s * 1000)"
    using a by (simp add: billing_period_def)
  show "\<exists>d. fst (checkLessonPlanCreationEligibility w) = Inr d \<and>
                 remainingGenerations d =
                   max 0 (10 - int (length [r \<leftarrow> lessonPlan_table w.
                                              userId r = uid \<and>
                                              current_period_start s * 1000 \<le> createdAt r \<and>
                                              createdAt r \<le> current_period_end s * 1000]))"
    using check_resolved_fst[OF assms(1,2,4,5) hs bp] by (simp add: remaining_decision)
qed

text \<open>The user whose only subscription is canceled.\<close>

theorem C10_hasSubscription_any_status_witness:
  "clerk_ok world_canceled \<and> prisma_ok world_canceled \<and> stripe_ok world_canceled \<and>
   resolved (session_userId world_canceled) (session_user world_canceled) =
     Some (''user_1'', person ''user_1'') \<and>
   find (\<lambda>r. db_id r = ''user_1'') (user_table world_canceled) =
     Some \<lparr>db_id = ''user_1'', stripe_customer_id = Some ''cus_1''\<rparr> \<and>
   stripe_subscriptions world_canceled ''cus_1'' = [november ''canceled''] \<and>
   status (november ''canceled'') = ''canceled'' \<and>
   fst (hasSubscription world_canceled) =
     Inr \<lparr>isSubscribed = True, subscriptionData = [november ''canceled'']\<rparr> \<and>
   (\<exists>d. fst (checkLessonPlanCreationEligibility world_canceled) = Inr d \<and>
        remainingGenerations d = 8)"
proof -
  note h = example_world_resolved[of "Some ''cus_1''" "[november ''canceled'']" boundary_plans
      1700000000000, folded world_canceled_def]
  have ok: "stripe_ok world_canceled"
    by (simp add: world_canceled_def example_world_def)
  have cid: "stripe_customer_id \<lparr>db_id = ''user_1'', stripe_customer_id = Some ''cus_1''\<rparr> =
      Some ''cus_1''" and ne: "''cus_1'' \<noteq> []"
    by simp_all
  have subs: "stripe_subscriptions world_canceled ''cus_1'' = [november ''canceled'']"
    by (simp add: world_canceled_def example_world_def)
  have st: "status (november ''canceled'') = ''canceled''"
    by (simp add: november_def)
  note c = C10_hasSubscription_any_status [OF h(1,2) ok h(3,4) cid ne]
  have c1: "fst (hasSubscription world_canceled) =
     Inr \<lparr>isSubscribed = True, subscriptionData = [november ''canceled'']\<rparr>"
    using c subs by simp
  have "\<exists>d. fst (checkLessonPlanCreationEligibility world_canceled) = Inr d \<and>
        remainingGenerations d =
          max 0 (10 - int (length [r \<leftarrow> lessonPlan_table world_canceled.
                    userId r = ''user_1'' \<and>
                    current_period_start (november ''canceled'') * 1000 \<le> createdAt r \<and>
                    createdAt r \<le> current_period_end (november ''canceled'') * 1000]))"
    using c subs st by simp
  then have c2: "\<exists>d. fst (checkLessonPlanCreationEligibility world_canceled) = Inr d \<and>
        remainingGenerations d = 8"
    by (simp add: world_canceled_def example_defs)
  show ?thesis
    using h ok subs st c1 c2 by simp
qed

end
